theory Spec2Isabelle
  imports Main
begin

section \<open>Backup codes of the two-factor plugin\<close>

text \<open>
  A shallow embedding of \<^verbatim>\<open>plugins/two-factor/backup-codes/index.ts\<close>.
  JavaScript strings are \<open>string\<close>, arrays are lists, \<open>null\<close> is \<open>None\<close>, a thrown
  exception is the left summand of a sum, and awaiting a promise is sequencing.
  The functions the file imports (the symmetric cipher, the random string generator,
  \<open>JSON\<close>, the two-factor session check, the password check) are fields of an
  environment record that every function of the model takes as its first argument.
\<close>

subsection \<open>Data\<close>

type_synonym exn = string
  \<comment> \<open>an exception thrown by a collaborator, carried by its message\<close>

datatype json =
    JNull
  | JBool bool
  | JNumber int
  | JString string
  | JArray "json list"
  | JObject "(string \<times> json) list"

datatype http_status = BAD_REQUEST | UNAUTHORIZED

datatype error_code =
    BACKUP_CODES_NOT_ENABLED
  | INVALID_BACKUP_CODE
  | TWO_FACTOR_NOT_ENABLED
  | Message string

datatype error =
    APIError http_status error_code
  | Thrown exn

datatype store_strategy =
    Plain
  | Encrypted
  | Custom "string \<Rightarrow> exn + string" "string \<Rightarrow> exn + string"
  \<comment> \<open>\<open>Custom encrypt decrypt\<close>; a rejected promise is \<open>Inl\<close>\<close>

record BackupCodeOptions =
  amount :: "int option"
  length' :: "int option"
  customBackupCodesGenerate :: "(unit \<Rightarrow> string list) option"
  storeBackupCodes_opt :: "store_strategy option"

record UserWithTwoFactor =
  user_id :: string
  twoFactorEnabled :: bool

record TwoFactorTable =
  userId :: string
  backupCodes :: string

type_synonym adapter = "string \<rightharpoonup> TwoFactorTable"
  \<comment> \<open>the \<open>twoFactor\<close> model of the adapter, one record for a user id\<close>

record env =
  symmetricEncrypt :: "string \<Rightarrow> string \<Rightarrow> string \<Rightarrow> string"
    \<comment> \<open>key, the nonce the cipher draws, data\<close>
  symmetricDecrypt :: "string \<Rightarrow> string \<Rightarrow> exn + string"
    \<comment> \<open>key, data; throws on a blob it cannot open\<close>
  generateRandomString :: "nat \<Rightarrow> int \<Rightarrow> string list \<Rightarrow> string"
    \<comment> \<open>the index of the draw, the length asked for, the alphabets\<close>
  JSON_stringify :: "json \<Rightarrow> string"
  JSON_parse :: "string \<Rightarrow> exn + json"
  verifyTwoFactor :: "exn + UserWithTwoFactor"
    \<comment> \<open>the user of the pending two-factor session, or what the check throws\<close>
  checkPassword :: "string \<Rightarrow> string \<Rightarrow> exn option"
    \<comment> \<open>user id, password; \<open>Some\<close> is what the check throws\<close>

record ctx =
  secret :: string
  body_code :: string
  body_disableSession :: bool
  body_password :: string
  body_userId :: string
  session_user :: UserWithTwoFactor

datatype response =
    Valid UserWithTwoFactor
  | Json_user UserWithTwoFactor
  | Json_generated bool "string list"
  | Json_view bool string
  \<comment> \<open>\<open>Valid\<close> is the handler returning \<open>valid(ctx)\<close>: the verification has
      succeeded and the session finalizer, which is outside the file, takes over. The
      others are the bodies given to \<open>ctx.json\<close>.\<close>

record verify_result =
  status :: bool
  updated :: "string list option"

record generated =
  backupCodes_plain :: "string list"
  encryptedBackupCodes :: string

subsection \<open>The adapter\<close>

text \<open>
  Modelled from the spec: the credential store, whose implementation is outside the
  file. \<open>findOne(factorKind, userId)\<close> gives the record or absent;
  \<open>update(factorKind, userId, newBlob)\<close> replaces the blob of the record with that
  user id, and changes nothing when there is none. \<open>updateMany\<close> does the same on
  a table with one record for a user.
\<close>

definition findOne :: "adapter \<Rightarrow> string \<Rightarrow> TwoFactorTable option" where
  "findOne db uid = db uid"

definition update :: "adapter \<Rightarrow> string \<Rightarrow> string \<Rightarrow> adapter" where
  "update db uid blob =
     (case db uid of
        None \<Rightarrow> db
      | Some r \<Rightarrow> db(uid \<mapsto> r\<lparr>backupCodes := blob\<rparr>))"

definition updateMany :: "adapter \<Rightarrow> string \<Rightarrow> string \<Rightarrow> adapter" where
  "updateMany db uid blob = update db uid blob"

subsection \<open>The schema check\<close>

text \<open>
  \<open>z.array(z.string()).safeParse(data)\<close>: success, with the array, exactly when
  \<open>data\<close> is an array whose elements are all strings.
\<close>

fun string_items :: "json list \<Rightarrow> string list option" where
  "string_items [] = Some []"
| "string_items (JString s # xs) =
     (case string_items xs of None \<Rightarrow> None | Some ss \<Rightarrow> Some (s # ss))"
| "string_items (_ # xs) = None"

fun safeParse :: "json \<Rightarrow> string list option" where
  "safeParse (JArray xs) = string_items xs"
| "safeParse _ = None"

definition json_of_codes :: "string list \<Rightarrow> json" where
  "json_of_codes codes = JArray (map JString codes)"

subsection \<open>The generator\<close>

definition format_code :: "string \<Rightarrow> string" where
  \<comment> \<open>\<open>`${code.slice(0, 5)}-${code.slice(5)}`\<close>\<close>
  "format_code code = take 5 code @ ''-'' @ drop 5 code"

definition drawn_strings :: "env \<Rightarrow> BackupCodeOptions option \<Rightarrow> string list" where
  \<comment> \<open>the first \<open>map\<close>: one draw for each slot of \<open>Array.from({ length: amount ?? 10 })\<close>,
      which has no slot when the amount is negative\<close>
  "drawn_strings e options =
     (let n = (case options of None \<Rightarrow> 10
               | Some opts \<Rightarrow> (case amount opts of None \<Rightarrow> 10 | Some a \<Rightarrow> a));
          len = (case options of None \<Rightarrow> 10
               | Some opts \<Rightarrow> (case length' opts of None \<Rightarrow> 10 | Some l \<Rightarrow> l))
      in map (\<lambda>i. generateRandomString e i len [''a-z'', ''0-9'', ''A-Z'']) [0 ..< nat n])"

definition generateBackupCodesFn :: "env \<Rightarrow> BackupCodeOptions option \<Rightarrow> string list" where
  "generateBackupCodesFn e options = map format_code (drawn_strings e options)"

definition generateBackupCodes ::
    "env \<Rightarrow> string \<Rightarrow> string \<Rightarrow> BackupCodeOptions option \<Rightarrow> generated" where
  "generateBackupCodes e secret_key nonce options =
     (let key = secret_key;
          codes =
            (case options of
               None \<Rightarrow> generateBackupCodesFn e options
             | Some opts \<Rightarrow>
                 (case customBackupCodesGenerate opts of
                    Some g \<Rightarrow> g ()
                  | None \<Rightarrow> generateBackupCodesFn e options));
          encCodes = symmetricEncrypt e key nonce (JSON_stringify e (json_of_codes codes))
      in \<lparr>backupCodes_plain = codes, encryptedBackupCodes = encCodes\<rparr>)"

subsection \<open>Decoding and matching\<close>

text \<open>
  \<open>getBackupCodes\<close> re-encodes the decrypted text as UTF-8 and decodes it again
  before parsing; the text comes out of a UTF-8 decoder, so this changes nothing and the
  model passes it on as it is.
\<close>

definition getBackupCodes :: "env \<Rightarrow> string \<Rightarrow> string \<Rightarrow> exn + string list option" where
  "getBackupCodes e backupCodes' key =
     (case symmetricDecrypt e key backupCodes' of
        Inl x \<Rightarrow> Inl x
      | Inr secret_text \<Rightarrow>
          (case JSON_parse e secret_text of
             Inl x \<Rightarrow> Inl x
           | Inr data \<Rightarrow> Inr (safeParse data)))"

definition verifyBackupCode :: "env \<Rightarrow> string \<Rightarrow> string \<Rightarrow> string \<Rightarrow> exn + verify_result" where
  "verifyBackupCode e backupCodes' code key =
     (case getBackupCodes e backupCodes' key of
        Inl x \<Rightarrow> Inl x
      | Inr None \<Rightarrow> Inr \<lparr>status = False, updated = None\<rparr>
      | Inr (Some codes) \<Rightarrow>
          Inr \<lparr>status = (code \<in> set codes),
               updated = Some (filter (\<lambda>c. c \<noteq> code) codes)\<rparr>)"

subsection \<open>The storage layer\<close>

definition strategy :: "BackupCodeOptions option \<Rightarrow> store_strategy option" where
  "strategy options = (case options of None \<Rightarrow> None | Some opts \<Rightarrow> storeBackupCodes_opt opts)"

definition storeBackupCodes :: "env \<Rightarrow> BackupCodeOptions option \<Rightarrow> ctx \<Rightarrow> string \<Rightarrow> string \<Rightarrow> exn + string" where
  "storeBackupCodes e options c nonce backupCodes' =
     (case strategy options of
        Some Encrypted \<Rightarrow> Inr (symmetricEncrypt e (secret c) nonce backupCodes')
      | Some (Custom encrypt decrypt) \<Rightarrow> encrypt backupCodes'
      | _ \<Rightarrow> Inr backupCodes')"

definition decryptBackupCodes :: "env \<Rightarrow> BackupCodeOptions option \<Rightarrow> ctx \<Rightarrow> string \<Rightarrow> exn + string" where
  "decryptBackupCodes e options c backupCodes' =
     (case strategy options of
        Some Encrypted \<Rightarrow> symmetricDecrypt e (secret c) backupCodes'
      | Some (Custom encrypt decrypt) \<Rightarrow> decrypt backupCodes'
      | _ \<Rightarrow> Inr backupCodes')"

text \<open>
  The two paths a blob takes: the \<open>generateBackupCodes\<close> endpoint encrypts the
  serialised batch and passes the result through \<open>storeBackupCodes\<close>; the
  \<open>verifyBackupCode\<close> endpoint passes the stored blob through
  \<open>decryptBackupCodes\<close> and the result through \<open>getBackupCodes\<close>.
\<close>

definition encode ::
    "env \<Rightarrow> BackupCodeOptions option \<Rightarrow> ctx \<Rightarrow> string \<Rightarrow> string \<Rightarrow> string list \<Rightarrow> exn + string" where
  "encode e options c nonce nonce_store batch =
     storeBackupCodes e options c nonce_store
       (symmetricEncrypt e (secret c) nonce (JSON_stringify e (json_of_codes batch)))"

definition decode ::
    "env \<Rightarrow> BackupCodeOptions option \<Rightarrow> ctx \<Rightarrow> string \<Rightarrow> exn + string list option" where
  "decode e options c blob =
     (case decryptBackupCodes e options c blob of
        Inl x \<Rightarrow> Inl x
      | Inr d \<Rightarrow> getBackupCodes e d (secret c))"

subsection \<open>The endpoints\<close>

text \<open>
  Each handler takes the adapter's table and returns it with its result, so that what a
  failed call leaves behind can be stated. The nonces are those the cipher draws in the
  calls to \<open>symmetricEncrypt\<close>, in order.
\<close>

definition verifyBackupCode_endpoint ::
    "env \<Rightarrow> BackupCodeOptions option \<Rightarrow> ctx \<Rightarrow> string \<Rightarrow> adapter \<Rightarrow> (error + response) \<times> adapter" where
  "verifyBackupCode_endpoint e options c nonce db =
     (case verifyTwoFactor e of
        Inl x \<Rightarrow> (Inl (Thrown x), db)
      | Inr user \<Rightarrow>
          (case findOne db (user_id user) of
             None \<Rightarrow> (Inl (APIError BAD_REQUEST BACKUP_CODES_NOT_ENABLED), db)
           | Some twoFactor \<Rightarrow>
               (case decryptBackupCodes e options c (backupCodes twoFactor) of
                  Inl x \<Rightarrow> (Inl (Thrown x), db)
                | Inr decryptedBackupCodes \<Rightarrow>
                    (case verifyBackupCode e decryptedBackupCodes (body_code c) (secret c) of
                       Inl x \<Rightarrow> (Inl (Thrown x), db)
                     | Inr validate \<Rightarrow>
                         if \<not> status validate
                         then (Inl (APIError UNAUTHORIZED INVALID_BACKUP_CODE), db)
                         else
                           let updatedBackupCodes =
                                 symmetricEncrypt e (secret c) nonce
                                   (JSON_stringify e
                                      (case updated validate of
                                         None \<Rightarrow> JNull
                                       | Some codes \<Rightarrow> json_of_codes codes));
                               db' = updateMany db (user_id user) updatedBackupCodes
                           in if \<not> body_disableSession c
                              then (Inr (Valid user), db')
                              else (Inr (Json_user user), db')))))"

definition generateBackupCodes_endpoint ::
    "env \<Rightarrow> BackupCodeOptions option \<Rightarrow> ctx \<Rightarrow> string \<Rightarrow> string \<Rightarrow> adapter \<Rightarrow> (error + response) \<times> adapter" where
  "generateBackupCodes_endpoint e options c nonce nonce_store db =
     (let user = session_user c
      in if \<not> twoFactorEnabled user
         then (Inl (APIError BAD_REQUEST TWO_FACTOR_NOT_ENABLED), db)
         else
           (case checkPassword e (user_id user) (body_password c) of
              Some x \<Rightarrow> (Inl (Thrown x), db)
            | None \<Rightarrow>
                let gen = generateBackupCodes e (secret c) nonce options
                in (case storeBackupCodes e options c nonce_store (encryptedBackupCodes gen) of
                      Inl x \<Rightarrow> (Inl (Thrown x), db)
                    | Inr storedBackupCodes \<Rightarrow>
                        (Inr (Json_generated True (backupCodes_plain gen)),
                         update db (user_id (session_user c)) storedBackupCodes))))"

definition viewBackupCodes_endpoint ::
    "env \<Rightarrow> BackupCodeOptions option \<Rightarrow> ctx \<Rightarrow> adapter \<Rightarrow> error + response" where
  "viewBackupCodes_endpoint e options c db =
     (case findOne db (body_userId c) of
        None \<Rightarrow> Inl (APIError BAD_REQUEST (Message ''Backup codes aren't enabled''))
      | Some twoFactor \<Rightarrow>
          (case getBackupCodes e (backupCodes twoFactor) (secret c) of
             Inl x \<Rightarrow> Inl (Thrown x)
           | Inr None \<Rightarrow> Inl (APIError BAD_REQUEST BACKUP_CODES_NOT_ENABLED)
           | Inr (Some codes) \<Rightarrow>
               (case decryptBackupCodes e options c (backupCodes twoFactor) of
                  Inl x \<Rightarrow> Inl (Thrown x)
                | Inr decryptedBackupCodes \<Rightarrow> Inr (Json_view True decryptedBackupCodes))))"

subsection \<open>Stand-ins for the collaborators\<close>

text \<open>
  Concrete collaborators to run the endpoints on: a cipher that tags the data with the
  key and the nonce and refuses every blob that does not carry the key's tag, and a
  \<open>JSON\<close> for \<open>null\<close> and arrays of strings without escapes.
\<close>

definition test_encrypt :: "string \<Rightarrow> string \<Rightarrow> string \<Rightarrow> string" where
  "test_encrypt key nonce d = ''#'' @ key @ '':'' @ nonce @ '':'' @ d"

definition test_decrypt :: "string \<Rightarrow> string \<Rightarrow> exn + string" where
  "test_decrypt key blob =
     (let tag = ''#'' @ key @ '':''
      in if take (length tag) blob = tag
         then Inr (drop 1 (dropWhile (\<lambda>ch. ch \<noteq> CHR '':'') (drop (length tag) blob)))
         else Inl ''decryption failed'')"

fun join_with :: "string \<Rightarrow> string list \<Rightarrow> string" where
  "join_with sep [] = []"
| "join_with sep [x] = x"
| "join_with sep (x # y # ys) = x @ sep @ join_with sep (y # ys)"

fun test_stringify :: "json \<Rightarrow> string" where
  "test_stringify JNull = ''null''"
| "test_stringify (JBool b) = (if b then ''true'' else ''false'')"
| "test_stringify (JString s) = [CHR 0x22] @ s @ [CHR 0x22]"
| "test_stringify (JArray xs) = ''['' @ join_with '','' (map test_stringify xs) @ '']''"
| "test_stringify _ = ''{}''"

fun split_on :: "char \<Rightarrow> string \<Rightarrow> string \<Rightarrow> string list" where
  "split_on sep acc [] = [rev acc]"
| "split_on sep acc (ch # cs) =
     (if ch = sep then rev acc # split_on sep [] cs else split_on sep (ch # acc) cs)"

definition quoted :: "string \<Rightarrow> bool" where
  "quoted s = (2 \<le> length s \<and> hd s = CHR 0x22 \<and> last s = CHR 0x22)"

definition test_parse :: "string \<Rightarrow> exn + json" where
  "test_parse s =
     (if s = ''null'' then Inr JNull
      else if s = ''[]'' then Inr (JArray [])
      else if 2 \<le> length s \<and> hd s = CHR ''['' \<and> last s = CHR '']''
      then (let items = split_on CHR '','' [] (butlast (tl s))
            in if list_all quoted items
               then Inr (JArray (map (\<lambda>i. JString (butlast (tl i))) items))
               else Inl ''SyntaxError'')
      else Inl ''SyntaxError'')"

definition test_user :: UserWithTwoFactor where
  "test_user = \<lparr>user_id = ''u1'', twoFactorEnabled = True\<rparr>"

definition test_env :: "(nat \<Rightarrow> string) \<Rightarrow> env" where
  "test_env draws =
     \<lparr>symmetricEncrypt = test_encrypt,
      symmetricDecrypt = test_decrypt,
      generateRandomString = (\<lambda>i len alphabets. draws i),
      JSON_stringify = test_stringify,
      JSON_parse = test_parse,
      verifyTwoFactor = Inr test_user,
      checkPassword = (\<lambda>uid pw. None)\<rparr>"

definition test_ctx :: "string \<Rightarrow> ctx" where
  "test_ctx code =
     \<lparr>secret = ''k'', body_code = code, body_disableSession = False,
      body_password = ''pw'', body_userId = ''u1'', session_user = test_user\<rparr>"

definition test_options :: "store_strategy \<Rightarrow> BackupCodeOptions option" where
  "test_options st =
     Some \<lparr>amount = None, length' = None, customBackupCodesGenerate = None,
           storeBackupCodes_opt = Some st\<rparr>"

definition test_db :: "string \<Rightarrow> adapter" where
  "test_db blob = [''u1'' \<mapsto> \<lparr>userId = ''u1'', backupCodes = blob\<rparr>]"

subsection \<open>What the collaborators are assumed to do\<close>

text \<open>
  The cipher and \<open>JSON\<close> are assumed to invert only at the values a statement
  is about: \<open>value_layer_ok\<close> says that a batch, serialised and encrypted under a
  key with a nonce, decrypts and parses back; \<open>storage_layer_ok\<close> says that the
  configured storage strategy gives back the data \<open>d\<close> it stored.
\<close>

definition value_layer_ok :: "env \<Rightarrow> string \<Rightarrow> string \<Rightarrow> string list \<Rightarrow> bool" where
  "value_layer_ok e key nonce batch \<longleftrightarrow>
     symmetricDecrypt e key (symmetricEncrypt e key nonce (JSON_stringify e (json_of_codes batch)))
       = Inr (JSON_stringify e (json_of_codes batch))
     \<and> JSON_parse e (JSON_stringify e (json_of_codes batch)) = Inr (json_of_codes batch)"

definition storage_layer_ok ::
    "env \<Rightarrow> BackupCodeOptions option \<Rightarrow> string \<Rightarrow> string \<Rightarrow> string \<Rightarrow> bool" where
  "storage_layer_ok e options key nonce d \<longleftrightarrow>
     (case strategy options of
        Some Encrypted \<Rightarrow> symmetricDecrypt e key (symmetricEncrypt e key nonce d) = Inr d
      | Some (Custom encrypt decrypt) \<Rightarrow>
          (case encrypt d of Inl x \<Rightarrow> False | Inr blob \<Rightarrow> decrypt blob = Inr d)
      | _ \<Rightarrow> True)"

definition alphanumeric :: "char \<Rightarrow> bool" where
  "alphanumeric ch \<longleftrightarrow>
     ch \<in> set ''abcdefghijklmnopqrstuvwxyz0123456789ABCDEFGHIJKLMNOPQRSTUVWXYZ''"

subsection \<open>Scenarios\<close>

definition constant_draws :: "nat \<Rightarrow> string" where
  "constant_draws i = ''ab12cd''"

definition scenario_draws :: "nat \<Rightarrow> string" where
  "scenario_draws i =
     (if i = 0 then ''ab12cd'' else if i = 1 then ''EF34gh'' else ''99zzYY'')"

definition scenario_options :: "store_strategy option \<Rightarrow> BackupCodeOptions option" where
  "scenario_options st =
     Some \<lparr>amount = Some 3, length' = Some 6, customBackupCodesGenerate = None,
           storeBackupCodes_opt = st\<rparr>"

definition ten_codes :: "string list" where
  "ten_codes =
     [''aaaaa-00000'', ''bbbbb-11111'', ''ccccc-22222'', ''ddddd-33333'', ''eeeee-44444'',
      ''fffff-55555'', ''ggggg-66666'', ''hhhhh-77777'', ''iiiii-88888'', ''jjjjj-99999'']"

definition ten_options :: "store_strategy option \<Rightarrow> BackupCodeOptions option" where
  "ten_options st =
     Some \<lparr>amount = None, length' = None,
           customBackupCodesGenerate = Some (\<lambda>u. ten_codes),
           storeBackupCodes_opt = st\<rparr>"

definition stored_scenario :: "store_strategy option \<Rightarrow> adapter" where
  \<comment> \<open>the table after the \<open>generateBackupCodes\<close> endpoint has run on the scenario\<close>
  "stored_scenario st =
     snd (generateBackupCodes_endpoint (test_env scenario_draws) (scenario_options st)
            (test_ctx '''') ''n1'' ''n2'' (test_db ''''))"

definition stored_ten :: "store_strategy option \<Rightarrow> adapter" where
  "stored_ten st =
     snd (generateBackupCodes_endpoint (test_env constant_draws) (ten_options st)
            (test_ctx '''') ''n1'' ''n2'' (test_db ''''))"

definition key32 :: string where
  "key32 = ''0123456789abcdef0123456789abcdef''"

section \<open>Properties\<close>

lemmas test_defs = test_env_def test_ctx_def test_options_def test_db_def test_user_def
  test_encrypt_def test_decrypt_def test_parse_def quoted_def json_of_codes_def strategy_def

subsection \<open>Decoding what was encoded\<close>

lemma string_items_map_JString: "string_items (map JString cs) = Some cs"
  by (induction cs) simp_all

lemma safeParse_json_of_codes: "safeParse (json_of_codes cs) = Some cs"
  by (simp add: json_of_codes_def string_items_map_JString)

lemma getBackupCodes_value_layer:
  "value_layer_ok e key nonce batch \<Longrightarrow>
   getBackupCodes e (symmetricEncrypt e key nonce (JSON_stringify e (json_of_codes batch))) key
     = Inr (Some batch)"
  by (simp add: value_layer_ok_def getBackupCodes_def safeParse_json_of_codes)

lemma decrypt_store:
  "storage_layer_ok e options (secret c) nonce d \<Longrightarrow>
   \<exists>blob. storeBackupCodes e options c nonce d = Inr blob
        \<and> decryptBackupCodes e options c blob = Inr d"
  by (auto simp: storage_layer_ok_def storeBackupCodes_def decryptBackupCodes_def
           split: option.splits store_strategy.splits sum.splits)

text \<open>
  C5. Round trip. Whatever the storage strategy (none configured, plain, encrypted, or a
  custom pair that gives back what it stored), a batch that is serialised, encrypted
  and stored as the \<open>generateBackupCodes\<close> endpoint does it, decodes, by
  \<open>decryptBackupCodes\<close> and then \<open>getBackupCodes\<close>, to the same list of codes
  in the same order. The cipher and \<open>JSON\<close> are assumed to invert at this batch.
\<close>

theorem encode_decode_roundtrip:
  assumes "value_layer_ok e (secret c) nonce batch"
    and "storage_layer_ok e options (secret c) nonce_store
           (symmetricEncrypt e (secret c) nonce (JSON_stringify e (json_of_codes batch)))"
  shows "\<exists>blob. encode e options c nonce nonce_store batch = Inr blob
           \<and> decode e options c blob = Inr (Some batch)"
proof -
  let ?d = "symmetricEncrypt e (secret c) nonce (JSON_stringify e (json_of_codes batch))"
  from decrypt_store [OF assms(2)] obtain blob where
    st: "storeBackupCodes e options c nonce_store ?d = Inr blob" and
    de: "decryptBackupCodes e options c blob = Inr ?d" by blast
  have "decode e options c blob = Inr (Some batch)"
    using de getBackupCodes_value_layer [OF assms(1)] by (simp add: decode_def)
  with st show ?thesis by (simp add: encode_def)
qed

theorem encode_decode_roundtrip_witness:
  "value_layer_ok (test_env constant_draws) (secret (test_ctx ''x'')) ''n1''
     [''ab12c-d'', ''EF34g-h'']
   \<and> storage_layer_ok (test_env constant_draws) (test_options Encrypted)
       (secret (test_ctx ''x'')) ''n2''
       (symmetricEncrypt (test_env constant_draws) (secret (test_ctx ''x'')) ''n1''
          (JSON_stringify (test_env constant_draws) (json_of_codes [''ab12c-d'', ''EF34g-h''])))
   \<and> (\<exists>blob. encode (test_env constant_draws) (test_options Encrypted) (test_ctx ''x'')
                ''n1'' ''n2'' [''ab12c-d'', ''EF34g-h''] = Inr blob
          \<and> decode (test_env constant_draws) (test_options Encrypted) (test_ctx ''x'') blob
              = Inr (Some [''ab12c-d'', ''EF34g-h'']))"
proof -
  have v: "value_layer_ok (test_env constant_draws) (secret (test_ctx ''x'')) ''n1''
     [''ab12c-d'', ''EF34g-h'']"
    by (simp add: value_layer_ok_def test_defs)
  have s: "storage_layer_ok (test_env constant_draws) (test_options Encrypted)
       (secret (test_ctx ''x'')) ''n2''
       (symmetricEncrypt (test_env constant_draws) (secret (test_ctx ''x'')) ''n1''
          (JSON_stringify (test_env constant_draws) (json_of_codes [''ab12c-d'', ''EF34g-h''])))"
    by (simp add: storage_layer_ok_def test_defs)
  from v s encode_decode_roundtrip [OF v s] show ?thesis by blast
qed

subsection \<open>The generator\<close>

lemma length_format_code: "length (format_code a) = Suc (length a)"
  by (simp add: format_code_def)

lemma inj_format_code: "inj format_code"
proof (rule injI)
  fix a b :: string
  assume eq: "format_code a = format_code b"
  then have "length (format_code a) = length (format_code b)" by simp
  then have len: "length a = length b" by (simp add: length_format_code)
  from eq have "take 5 a @ (CHR ''-'' # drop 5 a) = take 5 b @ (CHR ''-'' # drop 5 b)"
    by (simp add: format_code_def)
  moreover have "length (take 5 a) = length (take 5 b)" using len by simp
  ultimately have "take 5 a = take 5 b \<and> drop 5 a = drop 5 b" by simp
  then have "take 5 a @ drop 5 a = take 5 b @ drop 5 b" by simp
  then show "a = b" by simp
qed

lemma drawn_scenario:
  "drawn_strings (test_env scenario_draws) (scenario_options st)
     = [''ab12cd'', ''EF34gh'', ''99zzYY'']"
  by (simp add: drawn_strings_def scenario_options_def scenario_draws_def test_env_def upt_rec)

text \<open>
  C6, as the spec states it: the codes of every generated batch are pairwise distinct.
  The generator draws each code on its own and compares nothing: a randomness source
  that gives the same string at every draw yields ten equal codes.
\<close>

theorem generated_codes_not_distinct:
  "\<not> distinct (generateBackupCodesFn (test_env constant_draws) None)"
  by (simp add: generateBackupCodesFn_def drawn_strings_def constant_draws_def test_env_def
        upt_rec)

text \<open>
  A repeated code needs no contrived randomness source: with 63 codes of one character
  over the 62 characters of the alphabet, two draws are equal whatever the source gives.
\<close>

lemma repeated_code_is_certain:
  assumes "options = Some opts"
    and "amount opts = Some 63" and "length' opts = Some 1"
    and "\<forall>raw \<in> set (drawn_strings e options). length raw = 1 \<and> list_all alphanumeric raw"
  shows "\<not> distinct (generateBackupCodesFn e options)"
proof
  let ?alphabet = "''abcdefghijklmnopqrstuvwxyz0123456789ABCDEFGHIJKLMNOPQRSTUVWXYZ''"
  assume "distinct (generateBackupCodesFn e options)"
  then have d: "distinct (drawn_strings e options)"
    by (simp add: generateBackupCodesFn_def distinct_map)
  have len: "length (drawn_strings e options) = 63"
    using assms(1,2) by (simp add: drawn_strings_def)
  have sub: "set (drawn_strings e options) \<subseteq> (\<lambda>ch. [ch]) ` set ?alphabet"
  proof
    fix raw assume "raw \<in> set (drawn_strings e options)"
    with assms(4) have l: "length raw = 1" and a: "list_all alphanumeric raw" by auto
    from l obtain ch where raw: "raw = [ch]" by (cases raw) auto
    with a have "ch \<in> set ?alphabet" by (simp add: alphanumeric_def)
    with raw show "raw \<in> (\<lambda>ch. [ch]) ` set ?alphabet" by blast
  qed
  have "card (set (drawn_strings e options)) \<le> card ((\<lambda>ch. [ch]) ` set ?alphabet)"
    by (rule card_mono [OF _ sub]) simp
  also have "\<dots> \<le> card (set ?alphabet)" by (rule card_image_le) simp
  also have "\<dots> \<le> length ?alphabet" by (rule card_length)
  also have "\<dots> = 62" by simp
  finally have "card (set (drawn_strings e options)) \<le> 62" .
  moreover have "card (set (drawn_strings e options)) = 63"
    using distinct_card [OF d] len by simp
  ultimately show False by simp
qed

text \<open>
  C6, amended. Every batch of the generator holds exactly one code for each draw, as
  many as the configured amount (ten when none is configured), each the drawn string
  cut after its fifth character and joined with the separator, in the order of the
  draws and with no duplicate removed. The codes of the batch are pairwise distinct
  exactly when the drawn strings are.
\<close>

theorem codes_distinct_iff_draws_distinct:
  "length (drawn_strings e options)
     = nat (case options of
              None \<Rightarrow> 10
            | Some opts \<Rightarrow> (case amount opts of None \<Rightarrow> 10 | Some a \<Rightarrow> a))
   \<and> generateBackupCodesFn e options
       = map (\<lambda>raw. take 5 raw @ ''-'' @ drop 5 raw) (drawn_strings e options)
   \<and> length (generateBackupCodesFn e options) = length (drawn_strings e options)
   \<and> (distinct (generateBackupCodesFn e options) \<longleftrightarrow> distinct (drawn_strings e options))"
proof -
  have n: "length (drawn_strings e options)
     = nat (case options of
              None \<Rightarrow> 10
            | Some opts \<Rightarrow> (case amount opts of None \<Rightarrow> 10 | Some a \<Rightarrow> a))"
    by (simp add: drawn_strings_def Let_def)
  have m: "generateBackupCodesFn e options
       = map (\<lambda>raw. take 5 raw @ ''-'' @ drop 5 raw) (drawn_strings e options)"
    by (simp add: generateBackupCodesFn_def format_code_def [abs_def])
  have l: "length (generateBackupCodesFn e options) = length (drawn_strings e options)"
    by (simp add: generateBackupCodesFn_def)
  have d: "distinct (generateBackupCodesFn e options) \<longleftrightarrow> distinct (drawn_strings e options)"
    unfolding generateBackupCodesFn_def
    by (simp add: distinct_map inj_on_subset [OF inj_format_code])
  from n m l d show ?thesis by blast
qed

theorem codes_distinct_iff_draws_distinct_witness:
  "length (generateBackupCodesFn (test_env scenario_draws) (scenario_options None)) = 3
   \<and> generateBackupCodesFn (test_env scenario_draws) (scenario_options None)
       = [''ab12c-d'', ''EF34g-h'', ''99zzY-Y'']
   \<and> distinct (drawn_strings (test_env scenario_draws) (scenario_options None))
   \<and> distinct (generateBackupCodesFn (test_env scenario_draws) (scenario_options None))"
  using codes_distinct_iff_draws_distinct [of "test_env scenario_draws" "scenario_options None"]
  by (simp add: drawn_scenario)

subsection \<open>Matching\<close>

text \<open>
  C10. On a batch that decodes, \<open>verifyBackupCode\<close> reports whether the presented
  code occurs in it and returns the batch without any entry equal to the presented code:
  the remainder is shorter by the number of occurrences and does not contain the code.
\<close>

theorem verifyBackupCode_removes_every_occurrence:
  assumes "getBackupCodes e blob key = Inr (Some codes)"
  shows "\<exists>r. verifyBackupCode e blob code key
                = Inr \<lparr>status = (code \<in> set codes), updated = Some r\<rparr>
           \<and> r = filter (\<lambda>x. x \<noteq> code) codes
           \<and> code \<notin> set r
           \<and> length r + count_list codes code = length codes"
proof -
  have "length (filter (\<lambda>x. x \<noteq> code) codes) + count_list codes code = length codes"
    by (induction codes) simp_all
  then show ?thesis using assms by (simp add: verifyBackupCode_def)
qed

theorem verifyBackupCode_removes_every_occurrence_witness:
  "getBackupCodes (test_env constant_draws)
     (test_encrypt ''k'' ''n'' (test_stringify (json_of_codes [''a'', ''b'', ''a''])))
     ''k'' = Inr (Some [''a'', ''b'', ''a''])
   \<and> verifyBackupCode (test_env constant_draws)
       (test_encrypt ''k'' ''n'' (test_stringify (json_of_codes [''a'', ''b'', ''a''])))
       ''a'' ''k'' = Inr \<lparr>status = True, updated = Some [''b'']\<rparr>
   \<and> length [''b''] + count_list [''a'', ''b'', ''a''] ''a'' = length [''a'', ''b'', ''a'']"
proof -
  have g: "getBackupCodes (test_env constant_draws)
     (test_encrypt ''k'' ''n'' (test_stringify (json_of_codes [''a'', ''b'', ''a''])))
     ''k'' = Inr (Some [''a'', ''b'', ''a''])"
    by (simp add: getBackupCodes_def test_defs)
  from g verifyBackupCode_removes_every_occurrence [OF g, of "''a''"] show ?thesis
    by simp
qed

subsection \<open>The verification endpoint\<close>

lemma verify_endpoint_outcome:
  "snd (verifyBackupCode_endpoint e options c nonce db) = db
   \<or> (\<exists>r. fst (verifyBackupCode_endpoint e options c nonce db) = Inr r)"
  by (simp add: verifyBackupCode_endpoint_def Let_def split: sum.split option.split)

text \<open>
  C9. A verification that ends in a failure, whichever it is, returns the table it was
  given: the record is written only on the path that answers with success.
\<close>

theorem failed_verification_keeps_record:
  assumes "fst (verifyBackupCode_endpoint e options c nonce db) = Inl err"
  shows "snd (verifyBackupCode_endpoint e options c nonce db) = db"
  using assms verify_endpoint_outcome [of e options c nonce db] by auto

theorem failed_verification_keeps_record_witness:
  "fst (verifyBackupCode_endpoint (test_env constant_draws) None (test_ctx ''zz'') ''n''
          (test_db (test_encrypt ''k'' ''n0'' (test_stringify (json_of_codes [''a'', ''b''])))))
     = Inl (APIError UNAUTHORIZED INVALID_BACKUP_CODE)
   \<and> snd (verifyBackupCode_endpoint (test_env constant_draws) None (test_ctx ''zz'') ''n''
          (test_db (test_encrypt ''k'' ''n0'' (test_stringify (json_of_codes [''a'', ''b''])))))
     = test_db (test_encrypt ''k'' ''n0'' (test_stringify (json_of_codes [''a'', ''b''])))"
proof -
  have f: "fst (verifyBackupCode_endpoint (test_env constant_draws) None (test_ctx ''zz'') ''n''
          (test_db (test_encrypt ''k'' ''n0'' (test_stringify (json_of_codes [''a'', ''b''])))))
     = Inl (APIError UNAUTHORIZED INVALID_BACKUP_CODE)"
    by (simp add: verifyBackupCode_endpoint_def verifyBackupCode_def getBackupCodes_def
          decryptBackupCodes_def findOne_def test_defs)
  from f failed_verification_keeps_record [OF f] show ?thesis by blast
qed

text \<open>
  The endpoint, for a user whose record exists, as a function of what the stored blob
  decodes to.
\<close>

lemma verify_endpoint_decode:
  assumes "verifyTwoFactor e = Inr user" and "findOne db (user_id user) = Some twoFactor"
  shows "verifyBackupCode_endpoint e options c nonce db =
     (case decode e options c (backupCodes twoFactor) of
        Inl x \<Rightarrow> (Inl (Thrown x), db)
      | Inr None \<Rightarrow> (Inl (APIError UNAUTHORIZED INVALID_BACKUP_CODE), db)
      | Inr (Some codes) \<Rightarrow>
          if body_code c \<in> set codes
          then (Inr (if body_disableSession c then Json_user user else Valid user),
                updateMany db (user_id user)
                  (symmetricEncrypt e (secret c) nonce
                     (JSON_stringify e (json_of_codes (filter (\<lambda>x. x \<noteq> body_code c) codes)))))
          else (Inl (APIError UNAUTHORIZED INVALID_BACKUP_CODE), db))"
proof (cases "decryptBackupCodes e options c (backupCodes twoFactor)")
  case (Inl x)
  with assms show ?thesis
    by (simp add: verifyBackupCode_endpoint_def decode_def)
next
  case (Inr d)
  show ?thesis
  proof (cases "getBackupCodes e d (secret c)")
    case (Inl x)
    with Inr assms show ?thesis
      by (simp add: verifyBackupCode_endpoint_def decode_def verifyBackupCode_def)
  next
    case gb: (Inr r)
    show ?thesis
    proof (cases r)
      case None
      with gb Inr assms show ?thesis
        by (simp add: verifyBackupCode_endpoint_def decode_def verifyBackupCode_def)
    next
      case (Some codes)
      with gb Inr assms show ?thesis
        by (simp add: verifyBackupCode_endpoint_def decode_def verifyBackupCode_def Let_def)
    qed
  qed
qed

text \<open>
  C3 says that a record whose blob does not decode into a batch makes the verification
  fail with \<open>BACKUP_CODES_NOT_ENABLED\<close>. A blob that decrypts to the text
  \<open>null\<close> parses and fails the schema check: \<open>verifyBackupCode\<close>
  reports it as a status of false, and the endpoint answers
  \<open>INVALID_BACKUP_CODE\<close>, as for a code that matches nothing. On the same table
  the \<open>viewBackupCodes\<close> endpoint answers \<open>BACKUP_CODES_NOT_ENABLED\<close>.
\<close>

theorem undecodable_blob_answers_invalid_code:
  "decode (test_env constant_draws) None (test_ctx ''ab12c-d'')
       (test_encrypt ''k'' ''n0'' ''null'') = Inr None
   \<and> verifyBackupCode_endpoint (test_env constant_draws) None (test_ctx ''ab12c-d'') ''n''
       (test_db (test_encrypt ''k'' ''n0'' ''null''))
     = (Inl (APIError UNAUTHORIZED INVALID_BACKUP_CODE),
        test_db (test_encrypt ''k'' ''n0'' ''null''))
   \<and> viewBackupCodes_endpoint (test_env constant_draws) None (test_ctx ''ab12c-d'')
       (test_db (test_encrypt ''k'' ''n0'' ''null''))
     = Inl (APIError BAD_REQUEST BACKUP_CODES_NOT_ENABLED)"
  by (simp add: verifyBackupCode_endpoint_def viewBackupCodes_endpoint_def verifyBackupCode_def
        getBackupCodes_def decode_def decryptBackupCodes_def findOne_def test_defs)

text \<open>
  For any collaborators: when the record exists and its blob does not decode to a batch,
  the endpoint answers \<open>INVALID_BACKUP_CODE\<close> where the content parses but is not
  a list of strings, and passes on what decryption or parsing throws; in neither case
  \<open>BACKUP_CODES_NOT_ENABLED\<close>.
\<close>

lemma undecodable_blob_signal:
  assumes "verifyTwoFactor e = Inr user"
    and "findOne db (user_id user) = Some twoFactor"
    and "decode e options c (backupCodes twoFactor) = r"
    and "r = Inr None \<or> isl r"
  shows "verifyBackupCode_endpoint e options c nonce db =
           ((case r of
               Inl x \<Rightarrow> Inl (Thrown x)
             | Inr _ \<Rightarrow> Inl (APIError UNAUTHORIZED INVALID_BACKUP_CODE)), db)"
  using assms(3,4) verify_endpoint_decode [OF assms(1,2), of options c nonce]
  by (auto simp: isl_def split: sum.split option.split)

subsection \<open>Regeneration\<close>

lemma findOne_update:
  "findOne db uid = Some r \<Longrightarrow>
   findOne (update db uid blob) uid = Some (r\<lparr>backupCodes := blob\<rparr>)"
  by (simp add: findOne_def update_def)

lemma generate_endpoint_stores:
  assumes "twoFactorEnabled (session_user c)"
    and "checkPassword e (user_id (session_user c)) (body_password c) = None"
    and "storage_layer_ok e options (secret c) nonce_store
           (encryptedBackupCodes (generateBackupCodes e (secret c) nonce options))"
  shows "\<exists>blob. generateBackupCodes_endpoint e options c nonce nonce_store db =
           (Inr (Json_generated True
                  (backupCodes_plain (generateBackupCodes e (secret c) nonce options))),
            update db (user_id (session_user c)) blob)
         \<and> decryptBackupCodes e options c blob =
             Inr (encryptedBackupCodes (generateBackupCodes e (secret c) nonce options))"
proof -
  from decrypt_store [OF assms(3)] obtain blob where
    "storeBackupCodes e options c nonce_store
       (encryptedBackupCodes (generateBackupCodes e (secret c) nonce options)) = Inr blob"
    and "decryptBackupCodes e options c blob =
       Inr (encryptedBackupCodes (generateBackupCodes e (secret c) nonce options))"
    by blast
  with assms(1,2) show ?thesis
    by (auto simp: generateBackupCodes_endpoint_def Let_def)
qed

lemma encrypted_generated:
  "encryptedBackupCodes (generateBackupCodes e key nonce options) =
   symmetricEncrypt e key nonce
     (JSON_stringify e
        (json_of_codes (backupCodes_plain (generateBackupCodes e key nonce options))))"
  by (simp add: generateBackupCodes_def Let_def)

lemma decryptBackupCodes_body_code:
  "decryptBackupCodes e options (c\<lparr>body_code := code\<rparr>) blob
     = decryptBackupCodes e options c blob"
  by (simp add: decryptBackupCodes_def split: option.split store_strategy.split)

text \<open>
  C7. Regeneration discards the prior state. After the \<open>generateBackupCodes\<close>
  endpoint has answered with the fresh batch \<open>B\<close> and overwritten the blob of the
  user's record, a verification by that user succeeds exactly for the codes of
  \<open>B\<close>: every other code, those of the batch stored before among them, fails with
  \<open>INVALID_BACKUP_CODE\<close>. The cipher, \<open>JSON\<close> and the storage strategy
  are assumed to invert at \<open>B\<close>.
\<close>

theorem regeneration_discards_prior_batch:
  assumes "twoFactorEnabled (session_user c)"
    and "checkPassword e (user_id (session_user c)) (body_password c) = None"
    and "findOne db (user_id (session_user c)) = Some r"
    and "verifyTwoFactor e = Inr (session_user c)"
    and "B = backupCodes_plain (generateBackupCodes e (secret c) nonce options)"
    and "value_layer_ok e (secret c) nonce B"
    and "storage_layer_ok e options (secret c) nonce_store
           (symmetricEncrypt e (secret c) nonce (JSON_stringify e (json_of_codes B)))"
    and "generateBackupCodes_endpoint e options c nonce nonce_store db = (res, db')"
  shows "res = Inr (Json_generated True B)
       \<and> fst (verifyBackupCode_endpoint e options (c\<lparr>body_code := code\<rparr>) nonce' db') =
           (if code \<in> set B
            then Inr (if body_disableSession c then Json_user (session_user c)
                      else Valid (session_user c))
            else Inl (APIError UNAUTHORIZED INVALID_BACKUP_CODE))"
proof -
  let ?gen = "generateBackupCodes e (secret c) nonce options"
  have enc: "encryptedBackupCodes ?gen =
      symmetricEncrypt e (secret c) nonce (JSON_stringify e (json_of_codes B))"
    using assms(5) encrypted_generated [of e "secret c" nonce options] by simp
  have st: "storage_layer_ok e options (secret c) nonce_store (encryptedBackupCodes ?gen)"
    using assms(7) enc by simp
  from generate_endpoint_stores [OF assms(1,2) st, of db] obtain blob where
    g: "generateBackupCodes_endpoint e options c nonce nonce_store db =
          (Inr (Json_generated True (backupCodes_plain ?gen)),
           update db (user_id (session_user c)) blob)"
    and d: "decryptBackupCodes e options c blob = Inr (encryptedBackupCodes ?gen)"
    by blast
  from g assms(8,5) have res: "res = Inr (Json_generated True B)"
    and db': "db' = update db (user_id (session_user c)) blob" by simp_all
  have rec: "findOne db' (user_id (session_user c)) = Some (r\<lparr>backupCodes := blob\<rparr>)"
    using db' findOne_update [OF assms(3)] by simp
  have dec: "decode e options (c\<lparr>body_code := code\<rparr>) (backupCodes (r\<lparr>backupCodes := blob\<rparr>))
               = Inr (Some B)"
    using d enc getBackupCodes_value_layer [OF assms(6)]
    by (simp add: decode_def decryptBackupCodes_body_code)
  show ?thesis
    using res dec
      verify_endpoint_decode [OF assms(4) rec, of options "c\<lparr>body_code := code\<rparr>" nonce']
    by simp
qed


subsection \<open>Running the scenarios\<close>

lemma test_env_simps:
  "symmetricEncrypt (test_env d) = test_encrypt"
  "symmetricDecrypt (test_env d) = test_decrypt"
  "JSON_stringify (test_env d) = test_stringify"
  "JSON_parse (test_env d) = test_parse"
  "verifyTwoFactor (test_env d) = Inr test_user"
  "checkPassword (test_env d) uid pw = None"
  "generateRandomString (test_env d) i len alphabets = d i"
  by (simp_all add: test_env_def)

lemmas test_simps = test_env_simps test_ctx_def test_options_def test_db_def test_user_def
  test_encrypt_def test_decrypt_def test_parse_def quoted_def json_of_codes_def strategy_def

lemma codes_scenario:
  "generateBackupCodesFn (test_env scenario_draws) (scenario_options st)
     = [''ab12c-d'', ''EF34g-h'', ''99zzY-Y'']"
  by (simp add: generateBackupCodesFn_def drawn_scenario format_code_def)

lemma generateBackupCodes_default:
  assumes "options = Some opts" and "customBackupCodesGenerate opts = None"
  shows "generateBackupCodes e key nonce options
     = \<lparr>backupCodes_plain = generateBackupCodesFn e options,
        encryptedBackupCodes =
          symmetricEncrypt e key nonce
            (JSON_stringify e (json_of_codes (generateBackupCodesFn e options)))\<rparr>"
  using assms by (simp add: generateBackupCodes_def Let_def)

lemma generated_scenario:
  "generateBackupCodes (test_env scenario_draws) key nonce (scenario_options st)
     = \<lparr>backupCodes_plain = [''ab12c-d'', ''EF34g-h'', ''99zzY-Y''],
        encryptedBackupCodes =
          test_encrypt key nonce
            (test_stringify (json_of_codes [''ab12c-d'', ''EF34g-h'', ''99zzY-Y'']))\<rparr>"
  using generateBackupCodes_default [OF scenario_options_def, of st "test_env scenario_draws" key nonce]
  by (simp add: codes_scenario test_env_simps)

lemma generate_scenario:
  "generateBackupCodes_endpoint (test_env scenario_draws) (scenario_options (Some Encrypted))
     (test_ctx ''aaaaa-a'') ''n1'' ''n2'' (test_db ''old'')
   = (Inr (Json_generated True [''ab12c-d'', ''EF34g-h'', ''99zzY-Y'']),
      test_db (test_encrypt ''k'' ''n2'' (test_encrypt ''k'' ''n1''
        (test_stringify (json_of_codes [''ab12c-d'', ''EF34g-h'', ''99zzY-Y''])))))"
proof -
  have "strategy (scenario_options (Some Encrypted)) = Some Encrypted"
    by (simp add: strategy_def scenario_options_def)
  then show ?thesis
    by (simp add: generateBackupCodes_endpoint_def generated_scenario storeBackupCodes_def
          update_def test_env_simps test_ctx_def test_db_def test_user_def)
qed

theorem regeneration_discards_prior_batch_witness:
  "twoFactorEnabled (session_user (test_ctx ''aaaaa-a''))
   \<and> checkPassword (test_env scenario_draws) (user_id (session_user (test_ctx ''aaaaa-a'')))
       (body_password (test_ctx ''aaaaa-a'')) = None
   \<and> findOne (test_db ''old'') (user_id (session_user (test_ctx ''aaaaa-a'')))
       = Some \<lparr>userId = ''u1'', backupCodes = ''old''\<rparr>
   \<and> verifyTwoFactor (test_env scenario_draws) = Inr (session_user (test_ctx ''aaaaa-a''))
   \<and> value_layer_ok (test_env scenario_draws) (secret (test_ctx ''aaaaa-a'')) ''n1''
       [''ab12c-d'', ''EF34g-h'', ''99zzY-Y'']
   \<and> storage_layer_ok (test_env scenario_draws) (scenario_options (Some Encrypted))
       (secret (test_ctx ''aaaaa-a'')) ''n2''
       (symmetricEncrypt (test_env scenario_draws) (secret (test_ctx ''aaaaa-a'')) ''n1''
          (JSON_stringify (test_env scenario_draws)
             (json_of_codes [''ab12c-d'', ''EF34g-h'', ''99zzY-Y''])))
   \<and> fst (generateBackupCodes_endpoint (test_env scenario_draws)
            (scenario_options (Some Encrypted)) (test_ctx ''aaaaa-a'') ''n1'' ''n2''
            (test_db ''old''))
       = Inr (Json_generated True [''ab12c-d'', ''EF34g-h'', ''99zzY-Y''])
   \<and> fst (verifyBackupCode_endpoint (test_env scenario_draws)
            (scenario_options (Some Encrypted)) (test_ctx ''aaaaa-a'') ''n3''
            (snd (generateBackupCodes_endpoint (test_env scenario_draws)
                    (scenario_options (Some Encrypted)) (test_ctx ''aaaaa-a'') ''n1'' ''n2''
                    (test_db ''old''))))
       = Inl (APIError UNAUTHORIZED INVALID_BACKUP_CODE)"
proof -
  let ?e = "test_env scenario_draws"
  let ?c = "test_ctx ''aaaaa-a''"
  let ?o = "scenario_options (Some Encrypted)"
  let ?B = "[''ab12c-d'', ''EF34g-h'', ''99zzY-Y'']"
  have a1: "twoFactorEnabled (session_user ?c)"
    by (simp add: test_ctx_def test_user_def)
  have a2: "checkPassword ?e (user_id (session_user ?c)) (body_password ?c) = None"
    by (simp add: test_env_simps)
  have a3: "findOne (test_db ''old'') (user_id (session_user ?c))
       = Some \<lparr>userId = ''u1'', backupCodes = ''old''\<rparr>"
    by (simp add: findOne_def test_db_def test_ctx_def test_user_def)
  have a4: "verifyTwoFactor ?e = Inr (session_user ?c)"
    by (simp add: test_env_simps test_ctx_def)
  have a5: "?B = backupCodes_plain (generateBackupCodes ?e (secret ?c) ''n1'' ?o)"
    by (simp add: generated_scenario)
  have a6: "value_layer_ok ?e (secret ?c) ''n1'' ?B"
    by (simp add: value_layer_ok_def test_simps)
  have a7: "storage_layer_ok ?e ?o (secret ?c) ''n2''
           (symmetricEncrypt ?e (secret ?c) ''n1'' (JSON_stringify ?e (json_of_codes ?B)))"
    by (simp add: storage_layer_ok_def scenario_options_def test_simps)
  have a8: "generateBackupCodes_endpoint ?e ?o ?c ''n1'' ''n2'' (test_db ''old'')
      = (fst (generateBackupCodes_endpoint ?e ?o ?c ''n1'' ''n2'' (test_db ''old'')),
         snd (generateBackupCodes_endpoint ?e ?o ?c ''n1'' ''n2'' (test_db ''old'')))"
    by simp
  have c: "?c\<lparr>body_code := ''aaaaa-a''\<rparr> = ?c"
    by (simp add: test_ctx_def)
  from regeneration_discards_prior_batch [OF a1 a2 a3 a4 a5 a6 a7 a8, of "''aaaaa-a''" "''n3''"]
  have "fst (generateBackupCodes_endpoint ?e ?o ?c ''n1'' ''n2'' (test_db ''old''))
          = Inr (Json_generated True ?B)
      \<and> fst (verifyBackupCode_endpoint ?e ?o ?c ''n3''
            (snd (generateBackupCodes_endpoint ?e ?o ?c ''n1'' ''n2'' (test_db ''old''))))
          = Inl (APIError UNAUTHORIZED INVALID_BACKUP_CODE)"
    by (simp add: c)
  with a1 a2 a3 a4 a6 a7 show ?thesis by blast
qed



subsection \<open>The scenario with three codes of six characters\<close>

lemma format_code_six:
  assumes "length raw = 6" and "list_all alphanumeric raw"
  shows "length (format_code raw) = 7 \<and> format_code raw ! 5 = CHR ''-''
       \<and> list_all alphanumeric (take 5 (format_code raw))
       \<and> list_all alphanumeric (drop 6 (format_code raw))
       \<and> length (take 5 (format_code raw)) = 5
       \<and> length (drop 6 (format_code raw)) = 1"
proof -
  have t: "take 5 (format_code raw) = take 5 raw"
    using assms(1) by (simp add: format_code_def)
  have d: "drop 6 (format_code raw) = drop 5 raw"
    using assms(1) by (simp add: format_code_def)
  have n: "format_code raw ! 5 = CHR ''-''"
    using assms(1) by (simp add: format_code_def nth_append)
  have a: "list_all alphanumeric (take 5 raw)" "list_all alphanumeric (drop 5 raw)"
    using assms(2) by (auto simp: list_all_iff dest: in_set_takeD in_set_dropD)
  have l: "length (format_code raw) = 7"
    using assms(1) by (simp add: length_format_code)
  show ?thesis unfolding t d using n a l assms(1) by simp
qed

lemma drawn_three:
  assumes "options = Some opts" and "amount opts = Some 3" and "length' opts = Some 6"
  shows "drawn_strings e options =
     [generateRandomString e 0 6 [''a-z'', ''0-9'', ''A-Z''],
      generateRandomString e 1 6 [''a-z'', ''0-9'', ''A-Z''],
      generateRandomString e 2 6 [''a-z'', ''0-9'', ''A-Z'']]"
proof -
  have "[0 ..< 3] = [0, Suc 0, Suc (Suc 0)]"
    by (simp add: upt_rec numeral_3_eq_3)
  then have "[0 ..< 3] = [0, 1, 2::nat]"
    by (simp add: numeral_2_eq_2)
  with assms show ?thesis by (simp add: drawn_strings_def)
qed

lemma format_code_sixth:
  assumes "length raw = 6"
  shows "format_code raw = take 5 raw @ ''-'' @ [raw ! 5]"
proof -
  have "drop 5 raw = [raw ! 5]"
    using assms by (simp add: list_eq_iff_nth_eq)
  then show ?thesis by (simp add: format_code_def)
qed

text \<open>
  C8, amended. With \<open>amount = 3\<close> and \<open>length = 6\<close>, and a randomness
  source that gives six alphanumeric characters at each draw, the generator yields three
  codes, the code at each position being the first five characters of the draw at that
  position, the separator, and the sixth character of that draw (a 5-1 split, so that
  \<open>ab12cd\<close> becomes \<open>ab12c-d\<close>): seven characters each. Encrypting the
  batch under a key and decrypting it with \<open>getBackupCodes\<close> returns the same
  three codes in the same order, the cipher and \<open>JSON\<close> being assumed to invert
  at the batch.
\<close>

theorem scenario_three_codes:
  assumes "options = Some opts"
    and "amount opts = Some 3" and "length' opts = Some 6"
    and "customBackupCodesGenerate opts = None"
    and "\<forall>raw \<in> set (drawn_strings e options). length raw = 6 \<and> list_all alphanumeric raw"
    and "value_layer_ok e key nonce (generateBackupCodesFn e options)"
  shows "length (generateBackupCodesFn e options) = 3
       \<and> generateBackupCodesFn e options
           = map (\<lambda>i. take 5 (generateRandomString e i 6 [''a-z'', ''0-9'', ''A-Z''])
                       @ ''-''
                       @ [generateRandomString e i 6 [''a-z'', ''0-9'', ''A-Z''] ! 5])
               [0, 1, 2]
       \<and> (\<forall>code \<in> set (generateBackupCodesFn e options).
             length code = 7 \<and> code ! 5 = CHR ''-''
             \<and> list_all alphanumeric (take 5 code) \<and> list_all alphanumeric (drop 6 code)
             \<and> length (take 5 code) = 5 \<and> length (drop 6 code) = 1)
       \<and> backupCodes_plain (generateBackupCodes e key nonce options)
           = generateBackupCodesFn e options
       \<and> getBackupCodes e (encryptedBackupCodes (generateBackupCodes e key nonce options)) key
           = Inr (Some (generateBackupCodesFn e options))"
proof -
  let ?g = "\<lambda>i. generateRandomString e i 6 [''a-z'', ''0-9'', ''A-Z'']"
  have dr: "drawn_strings e options = [?g 0, ?g 1, ?g 2]"
    by (rule drawn_three [OF assms(1,2,3)])
  have len: "length (generateBackupCodesFn e options) = 3"
    by (simp add: generateBackupCodesFn_def dr)
  have six: "length (?g 0) = 6" "length (?g 1) = 6" "length (?g 2) = 6"
    using assms(5) by (simp_all add: dr)
  have tie: "generateBackupCodesFn e options
           = map (\<lambda>i. take 5 (?g i) @ ''-'' @ [?g i ! 5]) [0, 1, 2]"
    unfolding generateBackupCodesFn_def dr
    by (simp only: list.map format_code_sixth [OF six(1)] format_code_sixth [OF six(2)]
          format_code_sixth [OF six(3)])
  have fmt: "\<forall>code \<in> set (generateBackupCodesFn e options).
             length code = 7 \<and> code ! 5 = CHR ''-''
             \<and> list_all alphanumeric (take 5 code) \<and> list_all alphanumeric (drop 6 code)
             \<and> length (take 5 code) = 5 \<and> length (drop 6 code) = 1"
  proof
    fix code assume "code \<in> set (generateBackupCodesFn e options)"
    then obtain raw where raw: "raw \<in> set (drawn_strings e options)" and c: "code = format_code raw"
      by (auto simp: generateBackupCodesFn_def)
    from raw assms(5) have "length raw = 6" and "list_all alphanumeric raw" by auto
    then show "length code = 7 \<and> code ! 5 = CHR ''-''
             \<and> list_all alphanumeric (take 5 code) \<and> list_all alphanumeric (drop 6 code)
             \<and> length (take 5 code) = 5 \<and> length (drop 6 code) = 1"
      unfolding c by (rule format_code_six)
  qed
  have gen: "generateBackupCodes e key nonce options
     = \<lparr>backupCodes_plain = generateBackupCodesFn e options,
        encryptedBackupCodes =
          symmetricEncrypt e key nonce
            (JSON_stringify e (json_of_codes (generateBackupCodesFn e options)))\<rparr>"
    by (rule generateBackupCodes_default [OF assms(1,4)])
  have rt: "getBackupCodes e (encryptedBackupCodes (generateBackupCodes e key nonce options)) key
           = Inr (Some (generateBackupCodesFn e options))"
    using gen getBackupCodes_value_layer [OF assms(6)] by simp
  have pl: "backupCodes_plain (generateBackupCodes e key nonce options)
           = generateBackupCodesFn e options"
    using gen by simp
  from len tie fmt pl rt show ?thesis by blast
qed

theorem scenario_three_codes_witness:
  "amount (the (scenario_options None)) = Some 3
   \<and> length' (the (scenario_options None)) = Some 6
   \<and> drawn_strings (test_env scenario_draws) (scenario_options None)
       = [''ab12cd'', ''EF34gh'', ''99zzYY'']
   \<and> list_all (\<lambda>raw. length raw = 6 \<and> list_all alphanumeric raw)
       (drawn_strings (test_env scenario_draws) (scenario_options None))
   \<and> value_layer_ok (test_env scenario_draws) key32 ''n1''
       (generateBackupCodesFn (test_env scenario_draws) (scenario_options None))
   \<and> generateBackupCodesFn (test_env scenario_draws) (scenario_options None)
       = [''ab12c-d'', ''EF34g-h'', ''99zzY-Y'']
   \<and> getBackupCodes (test_env scenario_draws)
       (encryptedBackupCodes
          (generateBackupCodes (test_env scenario_draws) key32 ''n1'' (scenario_options None)))
       key32
       = Inr (Some [''ab12c-d'', ''EF34g-h'', ''99zzY-Y''])"
proof -
  let ?e = "test_env scenario_draws"
  let ?o = "scenario_options None"
  have h2: "amount (the ?o) = Some 3" and h3: "length' (the ?o) = Some 6"
    and h4: "customBackupCodesGenerate (the ?o) = None" and h1: "?o = Some (the ?o)"
    by (simp_all add: scenario_options_def)
  have h5': "list_all (\<lambda>raw. length raw = 6 \<and> list_all alphanumeric raw) (drawn_strings ?e ?o)"
    by (simp add: drawn_scenario alphanumeric_def)
  then have h5: "\<forall>raw \<in> set (drawn_strings ?e ?o). length raw = 6 \<and> list_all alphanumeric raw"
    by (simp add: list_all_iff)
  have h6: "value_layer_ok ?e key32 ''n1'' (generateBackupCodesFn ?e ?o)"
    by (simp add: codes_scenario value_layer_ok_def key32_def test_simps)
  from scenario_three_codes [OF h1 h2 h3 h4 h5 h6] h2 h3 h5' h6 show ?thesis
    by (simp add: codes_scenario drawn_scenario)
qed

text \<open>
  C8, as the spec states it: the separator is placed as a 3-3 split. The generator
  cuts after the fifth character whatever the length, so the three raw strings of the
  scenario do not become their 3-3 forms.
\<close>

theorem scenario_split_counterexample:
  "generateBackupCodesFn (test_env scenario_draws) (scenario_options None)
     \<noteq> [''ab1-2cd'', ''EF3-4gh'', ''99z-zYY'']
   \<and> format_code ''ab12cd'' = ''ab12c-d''"
  by (simp add: codes_scenario format_code_def)

subsection \<open>Verification and inspection under a storage strategy\<close>

lemma strategy_scenario: "strategy (scenario_options st) = st"
  by (simp add: strategy_def scenario_options_def)

lemma stored_scenario_encrypted:
  "stored_scenario (Some Encrypted) =
     test_db (test_encrypt ''k'' ''n2'' (test_encrypt ''k'' ''n1''
        (test_stringify (json_of_codes [''ab12c-d'', ''EF34g-h'', ''99zzY-Y'']))))"
  by (simp add: stored_scenario_def generateBackupCodes_endpoint_def generated_scenario
        storeBackupCodes_def strategy_scenario update_def test_env_simps test_ctx_def
        test_db_def test_user_def)

lemma stored_scenario_plain:
  "stored_scenario None =
     test_db (test_encrypt ''k'' ''n1''
        (test_stringify (json_of_codes [''ab12c-d'', ''EF34g-h'', ''99zzY-Y''])))"
  by (simp add: stored_scenario_def generateBackupCodes_endpoint_def generated_scenario
        storeBackupCodes_def strategy_scenario update_def test_env_simps test_ctx_def
        test_db_def test_user_def)

lemmas run_defs = verifyBackupCode_endpoint_def verifyBackupCode_def getBackupCodes_def
  decryptBackupCodes_def findOne_def updateMany_def update_def scenario_options_def
  test_simps Let_def

text \<open>
  C1 says that a successful verification writes the remainder back through both layers,
  so that the next verification can decode it under every storage strategy. The endpoint
  encrypts the remainder once, with \<open>symmetricEncrypt\<close>, and does not pass it
  through \<open>storeBackupCodes\<close> as the \<open>generateBackupCodes\<close> endpoint
  does. Under the encrypted strategy, after the scenario's batch is stored and the code
  \<open>EF34g-h\<close> is verified, the blob written holds one layer; the next
  verification, with the unused code \<open>ab12c-d\<close>, strips that layer in
  \<open>decryptBackupCodes\<close> and the decryption in \<open>getBackupCodes\<close>
  throws.
\<close>

theorem persist_skips_storage_layer:
  "verifyBackupCode_endpoint (test_env scenario_draws) (scenario_options (Some Encrypted))
     (test_ctx ''EF34g-h'') ''n3'' (stored_scenario (Some Encrypted))
   = (Inr (Valid test_user),
      test_db (test_encrypt ''k'' ''n3'' (test_stringify (json_of_codes [''ab12c-d'', ''99zzY-Y'']))))
   \<and> decode (test_env scenario_draws) (scenario_options (Some Encrypted)) (test_ctx ''ab12c-d'')
       (test_encrypt ''k'' ''n3'' (test_stringify (json_of_codes [''ab12c-d'', ''99zzY-Y''])))
      = Inl ''decryption failed''
   \<and> verifyBackupCode_endpoint (test_env scenario_draws) (scenario_options (Some Encrypted))
       (test_ctx ''ab12c-d'') ''n4''
       (test_db (test_encrypt ''k'' ''n3'' (test_stringify (json_of_codes [''ab12c-d'', ''99zzY-Y'']))))
     = (Inl (Thrown ''decryption failed''),
        test_db (test_encrypt ''k'' ''n3'' (test_stringify (json_of_codes [''ab12c-d'', ''99zzY-Y'']))))"
  by (simp add: stored_scenario_encrypted run_defs decode_def)

text \<open>
  The same for any cipher: under the encrypted strategy a blob with one layer, as a
  successful verification writes it, decodes to whatever the cipher makes of the
  serialised text itself, so a cipher that refuses that text makes the next decoding
  throw.
\<close>

lemma one_layer_blob_undecodable:
  assumes "strategy options = Some Encrypted"
    and "symmetricDecrypt e (secret c) (symmetricEncrypt e (secret c) nonce t) = Inr t"
    and "symmetricDecrypt e (secret c) t = Inl x"
  shows "decode e options c (symmetricEncrypt e (secret c) nonce t) = Inl x"
  using assms by (simp add: decode_def decryptBackupCodes_def getBackupCodes_def)

text \<open>
  C4 says that inspection returns the current batch in plaintext under every storage
  strategy. The endpoint decodes the batch only to check it, and answers with the
  result of \<open>decryptBackupCodes\<close> on the stored blob. With no storage strategy
  configured the answer is the stored ciphertext of the scenario's three codes, not the
  codes; under the encrypted strategy \<open>getBackupCodes\<close> is applied to the blob
  with its storage layer still on, and what it decrypts does not parse.
\<close>

theorem view_returns_stored_blob:
  "viewBackupCodes_endpoint (test_env scenario_draws) (scenario_options None) (test_ctx '''')
     (stored_scenario None)
   = Inr (Json_view True
       (test_encrypt ''k'' ''n1''
          (test_stringify (json_of_codes [''ab12c-d'', ''EF34g-h'', ''99zzY-Y'']))))
   \<and> decode (test_env scenario_draws) (scenario_options None) (test_ctx '''')
       (test_encrypt ''k'' ''n1''
          (test_stringify (json_of_codes [''ab12c-d'', ''EF34g-h'', ''99zzY-Y''])))
     = Inr (Some [''ab12c-d'', ''EF34g-h'', ''99zzY-Y''])
   \<and> viewBackupCodes_endpoint (test_env scenario_draws) (scenario_options (Some Encrypted))
       (test_ctx '''') (stored_scenario (Some Encrypted))
     = Inl (Thrown ''SyntaxError'')"
  by (simp add: stored_scenario_encrypted stored_scenario_plain viewBackupCodes_endpoint_def
        run_defs decode_def)

lemma view_answer_is_storage_decryption:
  assumes "viewBackupCodes_endpoint e options c db = Inr resp"
  shows "\<exists>r d. findOne db (body_userId c) = Some r
           \<and> decryptBackupCodes e options c (backupCodes r) = Inr d
           \<and> resp = Json_view True d"
  using assms
  by (auto simp: viewBackupCodes_endpoint_def split: option.splits sum.splits)

lemma stored_ten_encrypted:
  "stored_ten (Some Encrypted) =
     test_db (test_encrypt ''k'' ''n2'' (test_encrypt ''k'' ''n1''
        (test_stringify (json_of_codes ten_codes))))"
  by (simp add: stored_ten_def generateBackupCodes_endpoint_def generateBackupCodes_def
        ten_options_def storeBackupCodes_def strategy_def update_def test_env_simps
        test_ctx_def test_db_def test_user_def Let_def)

text \<open>
  C2 says that with ten pairwise distinct codes stored, verifying with the third succeeds
  once and a second verification with the same code fails with
  \<open>INVALID_BACKUP_CODE\<close>. Under the encrypted strategy the first verification
  succeeds and leaves the nine other codes, in order, under one layer of encryption; the
  second verification then ends in what the decryption throws.
\<close>

theorem second_verification_throws:
  "length ten_codes = 10 \<and> distinct ten_codes
   \<and> verifyBackupCode_endpoint (test_env constant_draws) (ten_options (Some Encrypted))
       (test_ctx ''ccccc-22222'') ''n3'' (stored_ten (Some Encrypted))
     = (Inr (Valid test_user),
        test_db (test_encrypt ''k'' ''n3''
          (test_stringify (json_of_codes (take 2 ten_codes @ drop 3 ten_codes)))))
   \<and> verifyBackupCode_endpoint (test_env constant_draws) (ten_options (Some Encrypted))
       (test_ctx ''ccccc-22222'') ''n4''
       (test_db (test_encrypt ''k'' ''n3''
          (test_stringify (json_of_codes (take 2 ten_codes @ drop 3 ten_codes)))))
     = (Inl (Thrown ''decryption failed''),
        test_db (test_encrypt ''k'' ''n3''
          (test_stringify (json_of_codes (take 2 ten_codes @ drop 3 ten_codes)))))"
  by (simp add: stored_ten_encrypted ten_codes_def ten_options_def
        verifyBackupCode_endpoint_def verifyBackupCode_def getBackupCodes_def
        decryptBackupCodes_def findOne_def updateMany_def update_def test_simps Let_def)

lemma filter_neq_nth_distinct:
  "distinct xs \<Longrightarrow> i < length xs \<Longrightarrow>
   filter (\<lambda>x. x \<noteq> xs ! i) xs = take i xs @ drop (Suc i) xs"
proof (induction xs arbitrary: i)
  case Nil
  then show ?case by simp
next
  case (Cons a xs)
  show ?case
  proof (cases i)
    case 0
    from Cons.prems have "a \<notin> set xs" by simp
    then have "filter (\<lambda>x. x \<noteq> a) xs = xs"
      by (induction xs) auto
    with 0 show ?thesis by simp
  next
    case (Suc j)
    with Cons.prems have j: "j < length xs" and d: "distinct xs" and "a \<noteq> xs ! j"
      by auto
    with Cons.IH [OF d j] Suc show ?thesis by simp
  qed
qed

lemma decode_plain:
  "strategy options = None \<or> strategy options = Some Plain \<Longrightarrow>
   decode e options c blob = getBackupCodes e blob (secret c)"
  by (auto simp: decode_def decryptBackupCodes_def)

text \<open>
  With no storage strategy, or the plain one, single consumption holds: the first
  verification with the code at position \<open>i\<close> succeeds and leaves the other
  codes in their order, and a second one with the same code fails with
  \<open>INVALID_BACKUP_CODE\<close>.
\<close>

lemma single_consumption_plain:
  assumes "verifyTwoFactor e = Inr user"
    and "findOne db (user_id user) = Some r"
    and "strategy options = None \<or> strategy options = Some Plain"
    and "getBackupCodes e (backupCodes r) (secret c) = Inr (Some codes)"
    and "distinct codes" and "i < length codes" and "body_code c = codes ! i"
    and "value_layer_ok e (secret c) nonce (take i codes @ drop (Suc i) codes)"
    and "verifyBackupCode_endpoint e options c nonce db = (res, db')"
  shows "(\<exists>resp. res = Inr resp)
       \<and> (\<exists>r'. findOne db' (user_id user) = Some r'
              \<and> decode e options c (backupCodes r')
                  = Inr (Some (take i codes @ drop (Suc i) codes)))
       \<and> Suc (length (take i codes @ drop (Suc i) codes)) = length codes
       \<and> codes ! i \<notin> set (take i codes @ drop (Suc i) codes)
       \<and> verifyBackupCode_endpoint e options c nonce' db'
           = (Inl (APIError UNAUTHORIZED INVALID_BACKUP_CODE), db')"
proof -
  let ?rest = "take i codes @ drop (Suc i) codes"
  let ?blob = "symmetricEncrypt e (secret c) nonce (JSON_stringify e (json_of_codes ?rest))"
  have rest: "filter (\<lambda>x. x \<noteq> body_code c) codes = ?rest"
    using filter_neq_nth_distinct [OF assms(5,6)] assms(7) by simp
  have mem: "body_code c \<in> set codes" using assms(6,7) by simp
  have notin: "codes ! i \<notin> set ?rest"
    unfolding filter_neq_nth_distinct [OF assms(5,6), symmetric] by simp
  have len: "Suc (length ?rest) = length codes" using assms(6) by simp
  have d0: "decode e options c (backupCodes r) = Inr (Some codes)"
    using assms(3,4) by (simp add: decode_plain)
  have first: "verifyBackupCode_endpoint e options c nonce db =
      (Inr (if body_disableSession c then Json_user user else Valid user),
       updateMany db (user_id user) ?blob)"
    using verify_endpoint_decode [OF assms(1,2), of options c nonce] d0 mem rest by simp
  with assms(9) have res: "\<exists>resp. res = Inr resp"
    and db': "db' = update db (user_id user) ?blob"
    by (auto simp: updateMany_def)
  have rec': "findOne db' (user_id user) = Some (r\<lparr>backupCodes := ?blob\<rparr>)"
    using db' findOne_update [OF assms(2)] by simp
  have d1: "decode e options c (backupCodes (r\<lparr>backupCodes := ?blob\<rparr>)) = Inr (Some ?rest)"
    using assms(3) getBackupCodes_value_layer [OF assms(8)] by (simp add: decode_plain)
  have second: "verifyBackupCode_endpoint e options c nonce' db'
           = (Inl (APIError UNAUTHORIZED INVALID_BACKUP_CODE), db')"
    using verify_endpoint_decode [OF assms(1) rec', of options c nonce'] d1 notin assms(7)
    by simp
  from res rec' d1 len notin second show ?thesis by auto
qed

end
